theory Spec2Isabelle
  imports Main "HOL-Library.Sublist"
begin

section \<open>JavaScript values and strings\<close>

text \<open>
  The values that flow through \<^verbatim>\<open>src/app/page.tsx\<close>: descriptor files parsed by
  \<^verbatim>\<open>response.json()\<close>, ABI entries, coerced call arguments and call results are all of
  TypeScript type \<^verbatim>\<open>any\<close>. They are modelled by one datatype of JavaScript values. An object
  is the list of its own enumerable properties in enumeration order, which is what
  \<^verbatim>\<open>Object.entries\<close> returns. A number carries an integer: the code never looks inside a
  number, it only tests it for truthiness. \<open>VBuiltin k\<close> is the built-in object that a
  plain object inherits under the key \<open>k\<close> of \<^verbatim>\<open>Object.prototype\<close>: a function, or for
  \<^verbatim>\<open>__proto__\<close> the object \<^verbatim>\<open>Object.prototype\<close> itself. It has no own enumerable property.
\<close>

datatype jsval =
    VUndefined
  | VNull
  | VBool bool
  | VNumber int
  | VBigInt int
  | VString string
  | VArray "jsval list"
  | VObject "(string \<times> jsval) list"
  | VBuiltin string

text \<open>
  A rejected promise or a thrown exception is the left summand; it carries
  \<^verbatim>\<open>error.message\<close>, the only part of an error the code reads.
\<close>

type_synonym 'a thrown = "string + 'a"

text \<open>\<^verbatim>\<open>typeof v === "bigint"\<close> and \<^verbatim>\<open>Array.isArray(v)\<close>.\<close>

fun isBigInt :: "jsval \<Rightarrow> bool" where
  "isBigInt (VBigInt n) = True"
| "isBigInt v = False"

fun isArray :: "jsval \<Rightarrow> bool" where
  "isArray (VArray xs) = True"
| "isArray v = False"

text \<open>Truthiness, as tested by \<^verbatim>\<open>&&\<close>, \<^verbatim>\<open>||\<close>, \<^verbatim>\<open>!\<close> and \<^verbatim>\<open>? :\<close>.\<close>

fun truthy :: "jsval \<Rightarrow> bool" where
  "truthy VUndefined = False"
| "truthy VNull = False"
| "truthy (VBool b) = b"
| "truthy (VNumber n) = (n \<noteq> 0)"
| "truthy (VBigInt n) = (n \<noteq> 0)"
| "truthy (VString s) = (s \<noteq> [])"
| "truthy (VArray xs) = True"
| "truthy (VObject kvs) = True"
| "truthy (VBuiltin k) = True"

text \<open>
  Property access \<^verbatim>\<open>v.key\<close> on a parsed JSON value, for the keys the code reads there
  (\<^verbatim>\<open>address\<close>, \<^verbatim>\<open>abi\<close>, \<^verbatim>\<open>type\<close>): on \<^verbatim>\<open>null\<close> and \<^verbatim>\<open>undefined\<close> it throws a
  TypeError, whose message depends on the engine and is a parameter; on an object it is
  the own property or \<^verbatim>\<open>undefined\<close>; primitives, arrays and built-in objects have none
  of these keys, and neither has \<^verbatim>\<open>Object.prototype\<close>.
\<close>

fun getProp :: "string \<Rightarrow> jsval \<Rightarrow> string \<Rightarrow> jsval thrown" where
  "getProp te VUndefined k = Inl te"
| "getProp te VNull k = Inl te"
| "getProp te (VObject kvs) k = Inr (case map_of kvs k of None \<Rightarrow> VUndefined | Some v \<Rightarrow> v)"
| "getProp te v k = Inr VUndefined"

text \<open>
  \<^verbatim>\<open>String.prototype.includes\<close>: does the second string occur in the first as a
  contiguous substring.
\<close>

fun str_includes :: "string \<Rightarrow> string \<Rightarrow> bool" where
  "str_includes [] sub = (sub = [])"
| "str_includes (c # cs) sub = (prefix sub (c # cs) \<or> str_includes cs sub)"

text \<open>
  \<^verbatim>\<open>toLowerCase\<close> and \<^verbatim>\<open>toUpperCase\<close> on the ASCII letters; every other character is
  left as it is. (No character outside ASCII lower-cases to one of the letters of
  \<^verbatim>\<open>true\<close>, so the comparison with \<^verbatim>\<open>"true"\<close> below is not affected.)
\<close>

definition lowerChar :: "char \<Rightarrow> char" where
  "lowerChar c =
     (case map_of (zip ''ABCDEFGHIJKLMNOPQRSTUVWXYZ'' ''abcdefghijklmnopqrstuvwxyz'') c of
        None \<Rightarrow> c | Some d \<Rightarrow> d)"

definition upperChar :: "char \<Rightarrow> char" where
  "upperChar c =
     (case map_of (zip ''abcdefghijklmnopqrstuvwxyz'' ''ABCDEFGHIJKLMNOPQRSTUVWXYZ'') c of
        None \<Rightarrow> c | Some d \<Rightarrow> d)"

definition toLowerCase :: "string \<Rightarrow> string" where
  "toLowerCase s = map lowerChar s"

text \<open>\<^verbatim>\<open>BigInt.prototype.toString()\<close>: the decimal digits, with a minus sign when negative.\<close>

definition digitChar :: "nat \<Rightarrow> char" where
  "digitChar d = ''0123456789'' ! d"

fun natDigits :: "nat \<Rightarrow> string" where
  "natDigits n = (if n < 10 then [digitChar n] else natDigits (n div 10) @ [digitChar (n mod 10)])"

declare natDigits.simps [simp del]

definition bigintToString :: "int \<Rightarrow> string" where
  "bigintToString i = (if i < 0 then CHR ''-'' # natDigits (nat (- i)) else natDigits (nat i))"

section \<open>ABI function extractor\<close>

text \<open>
  \<^verbatim>\<open>currentContractData.abi.filter((item: any) => item.type === "function")\<close>
  (\<^verbatim>\<open>connectToContract\<close>). The callback reads \<^verbatim>\<open>item.type\<close>, which throws on a
  \<^verbatim>\<open>null\<close> entry and then aborts the whole filter.
\<close>

definition isFunctionEntry :: "string \<Rightarrow> jsval \<Rightarrow> bool thrown" where
  "isFunctionEntry te item =
     (case getProp te item ''type'' of
        Inl e \<Rightarrow> Inl e
      | Inr t \<Rightarrow> Inr (t = VString ''function''))"

fun extractFunctions :: "string \<Rightarrow> jsval list \<Rightarrow> jsval list thrown" where
  "extractFunctions te [] = Inr []"
| "extractFunctions te (item # items) =
     (case isFunctionEntry te item of
        Inl e \<Rightarrow> Inl e
      | Inr keep \<Rightarrow>
          (case extractFunctions te items of
             Inl e \<Rightarrow> Inl e
           | Inr fs \<Rightarrow> Inr (if keep then item # fs else fs)))"

text \<open>The type tag of an ABI entry, for entries that are objects.\<close>

definition entryType :: "jsval \<Rightarrow> jsval" where
  "entryType item = (case item of VObject kvs \<Rightarrow> (case map_of kvs ''type'' of None \<Rightarrow> VUndefined | Some v \<Rightarrow> v) | _ \<Rightarrow> VUndefined)"

fun isObject :: "jsval \<Rightarrow> bool" where
  "isObject (VObject kvs) = True"
| "isObject v = False"

section \<open>Input coercion\<close>

text \<open>
  The external parsers used by the coercion, \<^verbatim>\<open>ethers.getBigInt\<close> and \<^verbatim>\<open>JSON.parse\<close>,
  belong to libraries, not to this repository, and are parameters of the model; each takes
  whatever value it is given. So are the message of the engine's TypeErrors (the model
  does not tell the messages of different TypeErrors apart) and the property read
  \<^verbatim>\<open>b[k]\<close> on a built-in object \<open>b\<close> of the runtime.
\<close>

record env =
  getBigInt :: "jsval \<Rightarrow> int thrown"
  jsonParse :: "jsval \<Rightarrow> jsval thrown"
  typeError :: string
  builtinMember :: "string \<Rightarrow> string \<Rightarrow> jsval thrown"

record abi_param =
  paramName :: string
  paramType :: string

text \<open>
  The interface \<^verbatim>\<open>ContractFunction\<close>, with the fields \<^verbatim>\<open>executeFunction\<close> reads: the
  name, the state mutability and, of each input, its name and type.
\<close>

record ContractFunction =
  name :: string
  stateMutability :: string
  inputs :: "abi_param list"

text \<open>
  The input store and each of its entries are plain objects used as dictionaries, and a
  plain object inherits from \<^verbatim>\<open>Object.prototype\<close>: reading a key that is not an own
  property gives the member of \<^verbatim>\<open>Object.prototype\<close> of that name when there is one, and
  \<^verbatim>\<open>undefined\<close> otherwise. These are the members in a browser; \<^verbatim>\<open>constructor\<close> is the
  function \<^verbatim>\<open>Object\<close>, \<^verbatim>\<open>__proto__\<close> is \<^verbatim>\<open>Object.prototype\<close> itself, the others are
  functions.
\<close>

definition objectPrototypeKeys :: "string list" where
  "objectPrototypeKeys =
     [''constructor'', ''__defineGetter__'', ''__defineSetter__'', ''hasOwnProperty'',
      ''__lookupGetter__'', ''__lookupSetter__'', ''isPrototypeOf'', ''propertyIsEnumerable'',
      ''toString'', ''valueOf'', ''__proto__'', ''toLocaleString'']"

definition objectPrototype :: "string \<Rightarrow> jsval option" where
  "objectPrototype k = (if k \<in> set objectPrototypeKeys then Some (VBuiltin k) else None)"

text \<open>
  What \<^verbatim>\<open>functionInputs[functionName] || {}\<close> evaluates to: the own entry of the function
  (a record of raw strings, always truthy), or an inherited member of \<^verbatim>\<open>Object.prototype\<close>
  (truthy as well), or else a fresh empty record.
\<close>

datatype inputs_object = OwnInputs "string \<rightharpoonup> string" | InheritedObject string

definition lookupInputs :: "(string \<rightharpoonup> (string \<rightharpoonup> string)) \<Rightarrow> string \<Rightarrow> inputs_object" where
  "lookupInputs store fn =
     (case store fn of
        Some m \<Rightarrow> OwnInputs m
      | None \<Rightarrow>
          (case objectPrototype fn of
             Some b \<Rightarrow> InheritedObject fn
           | None \<Rightarrow> OwnInputs Map.empty))"

text \<open>
  The spread \<^verbatim>\<open>{ ...inputs }\<close> that a result keeps: the own enumerable properties. A
  built-in object has none.
\<close>

fun inputsSnapshot :: "inputs_object \<Rightarrow> (string \<rightharpoonup> string)" where
  "inputsSnapshot (OwnInputs m) = m"
| "inputsSnapshot (InheritedObject b) = Map.empty"

text \<open>
  The raw value \<^verbatim>\<open>inputs[input.name] || ""\<close>. On a record it is the own string, or the
  inherited member of \<^verbatim>\<open>Object.prototype\<close> of that name, or \<^verbatim>\<open>""\<close>. On a built-in object
  it is what the runtime reads there, replaced by \<^verbatim>\<open>""\<close> when falsy.
\<close>

definition rawValue :: "env \<Rightarrow> inputs_object \<Rightarrow> string \<Rightarrow> jsval thrown" where
  "rawValue E ins n =
     (case ins of
        OwnInputs m \<Rightarrow>
          (case m n of
             Some v \<Rightarrow> Inr (VString v)
           | None \<Rightarrow> (case objectPrototype n of Some b \<Rightarrow> Inr b | None \<Rightarrow> Inr (VString [])))
      | InheritedObject b \<Rightarrow>
          (case builtinMember E b n of
             Inl e \<Rightarrow> Inl e
           | Inr v \<Rightarrow> Inr (if truthy v then v else VString [])))"

text \<open>
  The callback of \<^verbatim>\<open>func.inputs.map\<close> in \<^verbatim>\<open>executeFunction\<close>. The branches are tested in
  the order of the source. \<^verbatim>\<open>value.toLowerCase()\<close> is a TypeError on a value that is not a
  string: no other value that can be read here has that method.
\<close>

definition coerceValue :: "env \<Rightarrow> string \<Rightarrow> jsval \<Rightarrow> jsval thrown" where
  "coerceValue E t v =
     (if str_includes t ''uint'' \<or> str_includes t ''int'' then
        (if truthy v then map_sum id VBigInt (getBigInt E v) else Inr (VBigInt 0))
      else if t = ''bool'' then
        (case v of
           VString s \<Rightarrow> Inr (VBool (toLowerCase s = ''true''))
         | _ \<Rightarrow> Inl (typeError E))
      else if str_includes t ''[]'' then
        (case jsonParse E (if truthy v then v else VString ''[]'') of
           Inl e \<Rightarrow> Inr (VArray [])
         | Inr j \<Rightarrow> Inr j)
      else Inr v)"

definition coerceInput :: "env \<Rightarrow> inputs_object \<Rightarrow> abi_param \<Rightarrow> jsval thrown" where
  "coerceInput E ins input =
     (case rawValue E ins (paramName input) of
        Inl e \<Rightarrow> Inl e
      | Inr v \<Rightarrow> coerceValue E (paramType input) v)"

text \<open>\<^verbatim>\<open>func.inputs.map(...)\<close>: the first callback that throws aborts the map.\<close>

fun coerceArgs :: "env \<Rightarrow> inputs_object \<Rightarrow> abi_param list \<Rightarrow> jsval list thrown" where
  "coerceArgs E ins [] = Inr []"
| "coerceArgs E ins (p # ps) =
     (case coerceInput E ins p of
        Inl e \<Rightarrow> Inl e
      | Inr a \<Rightarrow> (case coerceArgs E ins ps of Inl e \<Rightarrow> Inl e | Inr as \<Rightarrow> Inr (a # as)))"

section \<open>Result normalization\<close>

text \<open>
  The block ``Format result for display'' of \<^verbatim>\<open>executeFunction\<close>. The callbacks of
  \<^verbatim>\<open>result.map\<close> and of \<^verbatim>\<open>Object.entries(result).map\<close> convert an item that is itself a
  bigint and return every other item as it is. \<^verbatim>\<open>null\<close> is falsy and is not treated as an
  object. A built-in function is not an object for \<^verbatim>\<open>typeof\<close>; \<^verbatim>\<open>Object.prototype\<close> is
  one, with no entries.
\<close>

fun formatItem :: "jsval \<Rightarrow> jsval" where
  "formatItem (VBigInt n) = VString (bigintToString n)"
| "formatItem v = v"

fun formatResult :: "jsval \<Rightarrow> jsval" where
  "formatResult (VBigInt n) = VString (bigintToString n)"
| "formatResult (VArray xs) = VArray (map formatItem xs)"
| "formatResult (VObject kvs) = VObject (map (\<lambda>(k, v). (k, formatItem v)) kvs)"
| "formatResult (VBuiltin k) = (if k = ''__proto__'' then VObject [] else VBuiltin k)"
| "formatResult v = v"

text \<open>
  The normalization as the specification words it: every bigint, at any nesting depth of
  sequences and records, becomes its decimal string.
\<close>

fun normalize_spec :: "jsval \<Rightarrow> jsval" where
  "normalize_spec (VBigInt n) = VString (bigintToString n)"
| "normalize_spec (VArray xs) = VArray (map normalize_spec xs)"
| "normalize_spec (VObject kvs) = VObject (map (map_prod id normalize_spec) kvs)"
| "normalize_spec v = v"

text \<open>Does a bigint occur anywhere in a value.\<close>

fun containsBigInt :: "jsval \<Rightarrow> bool" where
  "containsBigInt (VBigInt n) = True"
| "containsBigInt (VArray xs) = list_ex containsBigInt xs"
| "containsBigInt (VObject kvs) = list_ex containsBigInt (map snd kvs)"
| "containsBigInt v = False"

text \<open>
  The values whose bigints all lie where the code looks: the value itself, the items of a
  top-level sequence, the property values of a top-level record. A sequence or record
  nested inside holds no bigint.
\<close>

fun bigIntsAtTop :: "jsval \<Rightarrow> bool" where
  "bigIntsAtTop (VArray xs) = list_all (\<lambda>x. isBigInt x \<or> \<not> containsBigInt x) xs"
| "bigIntsAtTop (VObject kvs) = list_all (\<lambda>x. isBigInt x \<or> \<not> containsBigInt x) (map snd kvs)"
| "bigIntsAtTop v = True"

section \<open>Contract catalog loader\<close>

text \<open>
  \<^verbatim>\<open>getContracts\<close> (\<^verbatim>\<open>src/unnamed/part_000\<close>) lists the file names of the contracts
  directory; \<^verbatim>\<open>loadContractFiles\<close> fetches each one. What the file system and the network
  answer is outside the program: the directory listing (or the exception of
  \<^verbatim>\<open>readdirSync\<close>) and, per file name, the outcome of \<^verbatim>\<open>fetch\<close> followed by
  \<^verbatim>\<open>response.json()\<close>.
\<close>

datatype fetch_result =
    FetchRejected
  | ResponseNotOk
  | JsonRejected
  | JsonBody jsval

text \<open>
  The interface \<^verbatim>\<open>ContractFile\<close>. Its field \<^verbatim>\<open>name\<close>, the display name derived from the
  file name, is \<open>catalogName\<close> here. \<^verbatim>\<open>address\<close> and \<^verbatim>\<open>abi\<close> hold whatever the JSON
  body held.
\<close>

record ContractFile =
  catalogName :: string
  address :: jsval
  abi :: jsval

text \<open>\<^verbatim>\<open>s.replace(pat, rep)\<close> with a string pattern: the first occurrence only.\<close>

fun replaceFirst :: "string \<Rightarrow> string \<Rightarrow> string \<Rightarrow> string" where
  "replaceFirst pat rep [] = (if pat = [] then rep else [])"
| "replaceFirst pat rep (c # cs) =
     (if prefix pat (c # cs) then rep @ drop (length pat) (c # cs)
      else c # replaceFirst pat rep cs)"

text \<open>
  \<^verbatim>\<open>.replace(/\b\w/g, (l) => l.toUpperCase())\<close>: a word character (ASCII letter, digit or
  underscore) that follows the start of the string or a non-word character is upper-cased.
  The flag says whether the previous character was a word character.
\<close>

definition isWordChar :: "char \<Rightarrow> bool" where
  "isWordChar c =
     (c \<in> set ''abcdefghijklmnopqrstuvwxyzABCDEFGHIJKLMNOPQRSTUVWXYZ0123456789_'')"

fun capitalizeWords :: "bool \<Rightarrow> string \<Rightarrow> string" where
  "capitalizeWords prev [] = []"
| "capitalizeWords prev (c # cs) =
     (if isWordChar c \<and> \<not> prev then upperChar c else c) # capitalizeWords (isWordChar c) cs"

definition displayName :: "string \<Rightarrow> string" where
  "displayName f =
     capitalizeWords False
       (map (\<lambda>c. if c = CHR ''-'' then CHR '' '' else c) (replaceFirst ''.json'' [] f))"

text \<open>
  One iteration of the \<^verbatim>\<open>for\<close> loop: the file is pushed to \<^verbatim>\<open>contracts\<close>, or passed
  over silently, or an exception reaches the inner \<^verbatim>\<open>catch\<close> and \<^verbatim>\<open>console.warn\<close> is
  called. The test is \<^verbatim>\<open>contractData.address && contractData.abi\<close>: the second
  property is read only when the first is truthy.
\<close>

datatype load_result = Pushed ContractFile | Passed | Warned

definition loadFile :: "string \<Rightarrow> (string \<Rightarrow> fetch_result) \<Rightarrow> string \<Rightarrow> load_result" where
  "loadFile te fetch f =
     (case fetch f of
        FetchRejected \<Rightarrow> Warned
      | ResponseNotOk \<Rightarrow> Passed
      | JsonRejected \<Rightarrow> Warned
      | JsonBody contractData \<Rightarrow>
          (case getProp te contractData ''address'' of
             Inl e \<Rightarrow> Warned
           | Inr a \<Rightarrow>
               if truthy a then
                 (case getProp te contractData ''abi'' of
                    Inl e \<Rightarrow> Warned
                  | Inr b \<Rightarrow>
                      if truthy b
                      then Pushed \<lparr>catalogName = displayName f, address = a, abi = b\<rparr>
                      else Passed)
               else Passed))"

text \<open>
  The loop, threading the array \<^verbatim>\<open>contracts\<close> and the list of file names warned about.
\<close>

fun loadLoop ::
  "string \<Rightarrow> (string \<Rightarrow> fetch_result) \<Rightarrow> string list \<Rightarrow> ContractFile list \<times> string list
     \<Rightarrow> ContractFile list \<times> string list" where
  "loadLoop te fetch [] acc = acc"
| "loadLoop te fetch (f # fs) (contracts, warnings) =
     (case loadFile te fetch f of
        Pushed c \<Rightarrow> loadLoop te fetch fs (contracts @ [c], warnings)
      | Passed \<Rightarrow> loadLoop te fetch fs (contracts, warnings)
      | Warned \<Rightarrow> loadLoop te fetch fs (contracts, warnings @ [f]))"



section \<open>Component state\<close>

text \<open>
  The signer and the contract instance come from the wallet library. A signer is opaque.
  A contract instance answers a call by function name and arguments: for a \<^verbatim>\<open>view\<close> or
  \<^verbatim>\<open>pure\<close> function the promise resolves to the decoded value, for any other function to
  a transaction response with its \<^verbatim>\<open>hash\<close> and its \<^verbatim>\<open>wait()\<close>, which resolves to a
  receipt or \<^verbatim>\<open>null\<close>. Of a receipt the code reads \<^verbatim>\<open>gasUsed\<close> (a bigint) and its
  enumerable properties.
\<close>

datatype signer = Signer string

record TransactionReceipt =
  receiptGasUsed :: int
  receiptEntries :: "(string \<times> jsval) list"

record TransactionResponse =
  hash :: string
  wait :: "TransactionReceipt option thrown"

record Contract =
  readCall :: "string \<Rightarrow> jsval list \<Rightarrow> jsval thrown"
  sendTransaction :: "string \<Rightarrow> jsval list \<Rightarrow> TransactionResponse thrown"

text \<open>The interface \<^verbatim>\<open>FunctionResult\<close>; an optional field that is not set is \<open>None\<close>.\<close>

record FunctionResult =
  functionName :: string
  resultInputs :: "string \<rightharpoonup> string"
  result :: jsval
  error :: "string option"
  gasUsed :: "string option"
  transactionHash :: "string option"
  timestamp :: nat

datatype auth_method = privateKeyAuth | browserWallet

text \<open>The \<^verbatim>\<open>useState\<close> cells of \<^verbatim>\<open>SmartContractDebugger\<close> that the modelled functions touch.\<close>

record state =
  privateKey :: string
  selectedContract :: string
  authMethod :: auth_method
  connectingWallet :: bool
  parsedAbi :: "jsval list"
  contract :: "Contract option"
  wallet :: "signer option"
  walletAddress :: string
  isConnected :: bool
  connectionError :: string
  functionInputs :: "string \<rightharpoonup> (string \<rightharpoonup> string)"
  functionResults :: "FunctionResult list"
  latestFunctionResults :: "string \<rightharpoonup> FunctionResult"
  loadingFunctions :: "string set"
  expandedFunctions :: "jsval set"
  contractFiles :: "ContractFile list"
  loadingContracts :: bool
  currentContractData :: "(jsval \<times> jsval) option"

definition initialState :: state where
  "initialState =
     \<lparr>privateKey = [], selectedContract = [], authMethod = browserWallet,
      connectingWallet = False, parsedAbi = [], contract = None, wallet = None, walletAddress = [], isConnected = False,
      connectionError = [], functionInputs = Map.empty, functionResults = [],
      latestFunctionResults = Map.empty, loadingFunctions = {}, expandedFunctions = {},
      contractFiles = [], loadingContracts = False, currentContractData = None\<rparr>"

text \<open>
  \<^verbatim>\<open>loadContractFiles\<close>: when \<^verbatim>\<open>getContracts()\<close> rejects, the outer \<^verbatim>\<open>catch\<close> logs and
  \<^verbatim>\<open>setContractFiles\<close> is not called; \<^verbatim>\<open>finally\<close> resets \<^verbatim>\<open>loadingContracts\<close>.
\<close>

definition loadContractFiles ::
  "string \<Rightarrow> string list thrown \<Rightarrow> (string \<Rightarrow> fetch_result) \<Rightarrow> state \<Rightarrow> state \<times> string list" where
  "loadContractFiles te listing fetch s =
     (case listing of
        Inl e \<Rightarrow> (s\<lparr>loadingContracts := False\<rparr>, [])
      | Inr contractFileNames \<Rightarrow>
          (let (contracts, warnings) = loadLoop te fetch contractFileNames ([], []) in
           (s\<lparr>contractFiles := contracts, loadingContracts := False\<rparr>, warnings)))"

section \<open>Form state manager\<close>

text \<open>
  The cell \<^verbatim>\<open>functionInputs\<close> has type \<^verbatim>\<open>Record<string, Record<string, string>>\<close>: a map
  from function names to maps from parameter names to raw strings, holding the own
  properties. Reading the inputs of a function is the expression
  \<^verbatim>\<open>functionInputs[functionName] || {}\<close> of \<^verbatim>\<open>executeFunction\<close>, which also sees what the
  store inherits. \<^verbatim>\<open>handleInputChange\<close> is
  \<^verbatim>\<open>{...prev, [functionName]: {...prev[functionName], [inputName]: value}}\<close>: the spread
  copies own properties only (of \<^verbatim>\<open>undefined\<close> or of an inherited built-in object,
  none), and a computed key always defines an own property.
\<close>

definition getInputs :: "state \<Rightarrow> string \<Rightarrow> inputs_object" where
  "getInputs s fn = lookupInputs (functionInputs s) fn"

definition handleInputChange :: "string \<Rightarrow> string \<Rightarrow> string \<Rightarrow> state \<Rightarrow> state" where
  "handleInputChange fn inputName v s =
     s\<lparr>functionInputs :=
         (functionInputs s)
           (fn \<mapsto> (case functionInputs s fn of None \<Rightarrow> Map.empty | Some m \<Rightarrow> m)(inputName \<mapsto> v))\<rparr>"

section \<open>Connecting\<close>

text \<open>
  What the wallet answers is outside the program: whether \<^verbatim>\<open>window.ethereum\<close> exists,
  and whether the steps of the connection give a signer with its address or throw with a
  message. \<^verbatim>\<open>connectBrowserWallet\<close> throws before it touches \<^verbatim>\<open>connectingWallet\<close> when there
  is no provider; otherwise \<^verbatim>\<open>finally\<close> resets it.
\<close>

definition connectBrowserWallet ::
  "bool \<Rightarrow> (signer \<times> string) thrown \<Rightarrow> state \<Rightarrow> state \<times> (signer \<times> string) thrown" where
  "connectBrowserWallet provider w s =
     (if \<not> provider then
        (s, Inl ''No browser wallet found. Please install MetaMask or another wallet extension.'')
      else
        (case w of
           Inl m \<Rightarrow> (s\<lparr>connectingWallet := False\<rparr>, Inl (''Failed to connect wallet: '' @ m))
         | Inr (sg, a) \<Rightarrow>
             (s\<lparr>wallet := Some sg, walletAddress := a, connectingWallet := False\<rparr>, Inr (sg, a))))"

definition connectPrivateKey ::
  "(signer \<times> string) thrown \<Rightarrow> state \<Rightarrow> state \<times> (signer \<times> string) thrown" where
  "connectPrivateKey w s =
     (case w of
        Inl m \<Rightarrow> (s\<lparr>connectingWallet := False\<rparr>, Inl (''Invalid private key or RPC URL: '' @ m))
      | Inr (sg, a) \<Rightarrow>
          (s\<lparr>wallet := Some sg, walletAddress := a, connectingWallet := False\<rparr>, Inr (sg, a)))"

text \<open>The \<^verbatim>\<open>catch\<close> of \<^verbatim>\<open>connectToContract\<close>.\<close>

definition connectFailed :: "string \<Rightarrow> state \<Rightarrow> state" where
  "connectFailed m s = s\<lparr>connectionError := m, isConnected := False\<rparr>"

text \<open>
  \<^verbatim>\<open>abi.filter(...)\<close> on the stored ABI, which has type \<^verbatim>\<open>any\<close>: a value that is not an
  array has no \<^verbatim>\<open>filter\<close> method and the call throws.
\<close>

definition filterAbi :: "string \<Rightarrow> jsval \<Rightarrow> jsval list thrown" where
  "filterAbi te a = (case a of VArray items \<Rightarrow> extractFunctions te items | _ \<Rightarrow> Inl te)"

definition entryName :: "jsval \<Rightarrow> jsval" where
  "entryName item =
     (case item of
        VObject kvs \<Rightarrow> (case map_of kvs ''name'' of None \<Rightarrow> VUndefined | Some v \<Rightarrow> v)
      | _ \<Rightarrow> VUndefined)"

text \<open>
  \<^verbatim>\<open>connectToContract\<close>. The constructor \<^verbatim>\<open>new ethers.Contract(address, abi, signer)\<close> is
  the parameter \<open>mk\<close>; it may throw. The results are cleared before the constructor runs.
\<close>

definition connectToContract ::
  "string \<Rightarrow> bool \<Rightarrow> (signer \<times> string) thrown \<Rightarrow> (jsval \<Rightarrow> jsval \<Rightarrow> signer \<Rightarrow> Contract thrown)
     \<Rightarrow> state \<Rightarrow> state" where
  "connectToContract te provider w mk s =
     (let s0 = s\<lparr>connectionError := []\<rparr> in
      case currentContractData s of
        None \<Rightarrow> connectFailed ''Please select a contract'' s0
      | Some (addr, a) \<Rightarrow>
          (case (if authMethod s = browserWallet then connectBrowserWallet provider w s0
                 else if privateKey s = [] then (s0, Inl ''Please enter your private key'')
                 else connectPrivateKey w s0) of
             (s1, Inl m) \<Rightarrow> connectFailed m s1
           | (s1, Inr (sg, walletAddr)) \<Rightarrow>
               (case filterAbi te a of
                  Inl m \<Rightarrow> connectFailed m s1
                | Inr functions \<Rightarrow>
                    (let s2 = s1\<lparr>parsedAbi := functions,
                                 expandedFunctions := set (map entryName functions),
                                 latestFunctionResults := Map.empty,
                                 functionResults := []\<rparr> in
                     case mk addr a sg of
                       Inl m \<Rightarrow> connectFailed m s2
                     | Inr c \<Rightarrow> s2\<lparr>contract := Some c, isConnected := True\<rparr>))))"

text \<open>\<^verbatim>\<open>handleContractSelection\<close>.\<close>

definition handleContractSelection :: "string \<Rightarrow> state \<Rightarrow> state" where
  "handleContractSelection contractName s =
     (case find (\<lambda>c. catalogName c = contractName) (contractFiles s) of
        None \<Rightarrow> s
      | Some c \<Rightarrow>
          s\<lparr>selectedContract := contractName, currentContractData := Some (address c, abi c)\<rparr>)"

section \<open>Invocation dispatcher\<close>

text \<open>
  The body of the \<^verbatim>\<open>try\<close> of \<^verbatim>\<open>executeFunction\<close> up to the formatting: coercion, then the
  read call or the transaction. It yields \<^verbatim>\<open>result\<close>, \<^verbatim>\<open>gasUsed\<close> and
  \<^verbatim>\<open>transactionHash\<close>, or the message of what was thrown. \<^verbatim>\<open>receipt.gasUsed\<close> on a
  \<^verbatim>\<open>null\<close> receipt is a TypeError.
\<close>

definition invoke ::
  "env \<Rightarrow> Contract \<Rightarrow> ContractFunction \<Rightarrow> inputs_object
     \<Rightarrow> (jsval \<times> string option \<times> string option) thrown" where
  "invoke E c func ins =
     (case coerceArgs E ins (inputs func) of
        Inl e \<Rightarrow> Inl e
      | Inr args \<Rightarrow>
          if stateMutability func = ''view'' \<or> stateMutability func = ''pure'' then
            (case readCall c (name func) args of
               Inl e \<Rightarrow> Inl e
             | Inr r \<Rightarrow> Inr (r, None, None))
          else
            (case sendTransaction c (name func) args of
               Inl e \<Rightarrow> Inl e
             | Inr tx \<Rightarrow>
                 (case wait tx of
                    Inl e \<Rightarrow> Inl e
                  | Inr None \<Rightarrow> Inl (typeError E)
                  | Inr (Some receipt) \<Rightarrow>
                      Inr (VObject (receiptEntries receipt),
                           Some (bigintToString (receiptGasUsed receipt)),
                           Some (hash tx)))))"

text \<open>
  The \<^verbatim>\<open>FunctionResult\<close> built after the \<^verbatim>\<open>try\<close> body, or by the \<^verbatim>\<open>catch\<close>. The record
  of the \<^verbatim>\<open>catch\<close> sets neither \<^verbatim>\<open>gasUsed\<close> nor \<^verbatim>\<open>transactionHash\<close>. Both keep a spread
  of the inputs, \<^verbatim>\<open>{ ...inputs }\<close> and \<^verbatim>\<open>{ ...functionInputs[functionName] }\<close>, which hold
  the same own properties.
\<close>

definition mkResult ::
  "string \<Rightarrow> (string \<rightharpoonup> string) \<Rightarrow> nat \<Rightarrow> (jsval \<times> string option \<times> string option) thrown
     \<Rightarrow> FunctionResult" where
  "mkResult fn ins now out =
     (case out of
        Inr (r, gas, txh) \<Rightarrow>
          \<lparr>functionName = fn, resultInputs = ins, result = formatResult r, error = None,
           gasUsed = gas, transactionHash = txh, timestamp = now\<rparr>
      | Inl m \<Rightarrow>
          \<lparr>functionName = fn, resultInputs = ins, result = VNull, error = Some m,
           gasUsed = None, transactionHash = None, timestamp = now\<rparr>)"

text \<open>
  The two state updates that record a result, and the \<^verbatim>\<open>finally\<close>. They are updater
  functions: they act on the state current when the invocation settles.
\<close>

definition recordResult :: "FunctionResult \<Rightarrow> state \<Rightarrow> state" where
  "recordResult r s =
     s\<lparr>functionResults := r # functionResults s,
       latestFunctionResults := (latestFunctionResults s)(functionName r \<mapsto> r)\<rparr>"

definition settle :: "FunctionResult \<Rightarrow> state \<Rightarrow> state" where
  "settle r s =
     (let s1 = recordResult r s in
      s1\<lparr>loadingFunctions := loadingFunctions s1 - {functionName r}\<rparr>)"

text \<open>
  The start of an invocation: the guard, and the name added to the loading set. It
  also fixes what the invocation will record, from the inputs and the contract of the
  state at the call; \<open>now\<close> is \<^verbatim>\<open>Date.now()\<close> when the result is built.
\<close>

definition begin_invocation ::
  "env \<Rightarrow> nat \<Rightarrow> ContractFunction \<Rightarrow> state \<Rightarrow> (state \<times> FunctionResult) option" where
  "begin_invocation E now func s =
     (case contract s of
        None \<Rightarrow> None
      | Some c \<Rightarrow>
          (case wallet s of
             None \<Rightarrow> None
           | Some w \<Rightarrow>
               Some (s\<lparr>loadingFunctions := insert (name func) (loadingFunctions s)\<rparr>,
                     mkResult (name func) (inputsSnapshot (getInputs s (name func))) now
                       (invoke E c func (getInputs s (name func))))))"

text \<open>\<^verbatim>\<open>executeFunction\<close>, from the call to the settling, with nothing in between.\<close>

definition executeFunction :: "env \<Rightarrow> nat \<Rightarrow> ContractFunction \<Rightarrow> state \<Rightarrow> state" where
  "executeFunction E now func s =
     (case begin_invocation E now func s of
        None \<Rightarrow> s
      | Some (s1, r) \<Rightarrow> settle r s1)"

text \<open>
  The operations of the component as events. An invocation in flight is two events, its
  start and its settling, so that other events may fall between them.
\<close>

datatype event =
    InputChange string string string
  | SelectContract string
  | LoadFiles "string list thrown" "string \<Rightarrow> fetch_result"
  | Connect bool "(signer \<times> string) thrown" "jsval \<Rightarrow> jsval \<Rightarrow> signer \<Rightarrow> Contract thrown"
  | Execute nat ContractFunction
  | Start nat ContractFunction
  | Settle FunctionResult

fun step :: "env \<Rightarrow> event \<Rightarrow> state \<Rightarrow> state" where
  "step E (InputChange fn i v) s = handleInputChange fn i v s"
| "step E (SelectContract n) s = handleContractSelection n s"
| "step E (LoadFiles l f) s = fst (loadContractFiles (typeError E) l f s)"
| "step E (Connect p w mk) s = connectToContract (typeError E) p w mk s"
| "step E (Execute now func) s = executeFunction E now func s"
| "step E (Start now func) s =
     (case begin_invocation E now func s of None \<Rightarrow> s | Some (s1, r) \<Rightarrow> s1)"
| "step E (Settle r) s = settle r s"

text \<open>Is the event a connection attempt.\<close>

fun isConnect :: "event \<Rightarrow> bool" where
  "isConnect (Connect p w mk) = True"
| "isConnect e = False"

text \<open>
  A sequence of \<^verbatim>\<open>handleInputChange\<close> calls, each a triple of function name, parameter
  name and value, and what the specification expects to read back for a function: per
  parameter name, the value of the most recent call that named this function.
\<close>

definition setInputs :: "(string \<times> string \<times> string) list \<Rightarrow> state \<Rightarrow> state" where
  "setInputs calls s = fold (\<lambda>(fn, p, v). handleInputChange fn p v) calls s"

definition latestValues ::
  "(string \<times> string \<times> string) list \<Rightarrow> string \<Rightarrow> (string \<rightharpoonup> string)" where
  "latestValues calls fn = map_of (rev (map snd (filter (\<lambda>c. fst c = fn) calls)))"

text \<open>
  The own entry of a function in the input store, empty when it has none: what
  \<^verbatim>\<open>handleInputChange\<close> spreads.
\<close>

definition storedInputs :: "state \<Rightarrow> string \<Rightarrow> (string \<rightharpoonup> string)" where
  "storedInputs s fn = (case functionInputs s fn of None \<Rightarrow> Map.empty | Some m \<Rightarrow> m)"

text \<open>
  Does a connection attempt reach the statements under ``Clear previous results'': a
  contract is selected, the wallet step gives a signer (for the browser wallet a provider
  must exist, for a private key the key must not be empty), and the ABI filter does not
  throw.
\<close>

definition connectResets :: "string \<Rightarrow> bool \<Rightarrow> (signer \<times> string) thrown \<Rightarrow> state \<Rightarrow> bool" where
  "connectResets te provider w s =
     (case currentContractData s of
        None \<Rightarrow> False
      | Some (addr, a) \<Rightarrow>
          (if authMethod s = browserWallet then provider else privateKey s \<noteq> [])
          \<and> (case w of Inl m \<Rightarrow> False | Inr sg \<Rightarrow> True)
          \<and> (case filterAbi te a of Inl m \<Rightarrow> False | Inr fs \<Rightarrow> True))"

section \<open>Example data\<close>

text \<open>
  Concrete inputs on which the theorems below are instantiated: parsers that know a few
  strings, a runtime that knows the name and the length of \<^verbatim>\<open>Object.prototype.valueOf\<close>,
  a contract with two readable functions (one returns a number, one a sequence
  of sequences of numbers, as for \<^verbatim>\<open>uint256[][]\<close>) and one that reverts, a descriptor
  directory of five files.
\<close>

definition exampleEnv :: env where
  "exampleEnv =
     \<lparr>getBigInt = (\<lambda>v. if v = VString ''7'' then Inr 7
                       else Inl ''invalid BigNumberish string''),
      jsonParse = (\<lambda>v. if v = VString ''[]'' then Inr (VArray []) else Inl ''Unexpected token''),
      typeError = ''TypeError'',
      builtinMember = (\<lambda>b k. if b = ''valueOf'' \<and> k = ''name'' then Inr (VString ''valueOf'')
                             else if b = ''valueOf'' \<and> k = ''length'' then Inr (VNumber 0)
                             else Inr VUndefined)\<rparr>"

definition exampleContract :: Contract where
  "exampleContract =
     \<lparr>readCall = (\<lambda>fn args. if fn = ''totalSupply'' then Inr (VBigInt 1000)
                              else if fn = ''getPoints'' then Inr (VArray [VArray [VBigInt 1]])
                              else Inl ''missing revert data''),
      sendTransaction = (\<lambda>fn args. Inl ''execution reverted'')\<rparr>"

definition totalSupply :: ContractFunction where
  "totalSupply = \<lparr>name = ''totalSupply'', stateMutability = ''view'', inputs = []\<rparr>"

definition getPoints :: ContractFunction where
  "getPoints = \<lparr>name = ''getPoints'', stateMutability = ''view'', inputs = []\<rparr>"

definition mint :: ContractFunction where
  "mint = \<lparr>name = ''mint'', stateMutability = ''nonpayable'',
           inputs = [\<lparr>paramName = ''amount'', paramType = ''uint256''\<rparr>]\<rparr>"

definition connectedState :: state where
  "connectedState =
     initialState\<lparr>contract := Some exampleContract, wallet := Some (Signer ''0xabc'')\<rparr>"

definition olderResult :: FunctionResult where
  "olderResult =
     \<lparr>functionName = ''totalSupply'', resultInputs = Map.empty, result = VString ''1000'',
      error = None, gasUsed = None, transactionHash = None, timestamp = 1\<rparr>"

definition loggedState :: state where
  "loggedState =
     connectedState\<lparr>functionResults := [olderResult],
                    currentContractData := Some (VString ''0x1'', VArray [])\<rparr>"


definition exampleAbi :: "jsval list" where
  "exampleAbi =
     [VObject [(''type'', VString ''constructor'')],
      VObject [(''type'', VString ''function''), (''name'', VString ''totalSupply'')],
      VObject [(''type'', VString ''event''), (''name'', VString ''Transfer'')],
      VObject [(''type'', VString ''function''), (''name'', VString ''mint'')],
      VObject [(''type'', VString ''error''), (''name'', VString ''Denied'')]]"

definition mintState :: state where
  "mintState = handleInputChange ''mint'' ''amount'' ''7'' connectedState"

definition connectAnswer :: event where
  "connectAnswer =
     Connect True (Inr (Signer ''0xabc'', ''0xabc'')) (\<lambda>addr a sg. Inr exampleContract)"

definition valueOfFunction :: ContractFunction where
  "valueOfFunction =
     \<lparr>name = ''valueOf'', stateMutability = ''view'',
      inputs = [\<lparr>paramName = ''name'', paramType = ''string''\<rparr>,
                \<lparr>paramName = ''length'', paramType = ''uint256''\<rparr>]\<rparr>"

definition rejectedConnect :: event where
  "rejectedConnect =
     Connect True (Inl ''User rejected the request.'') (\<lambda>addr a sg. Inr exampleContract)"

section \<open>The function extractor\<close>

lemma isFunctionEntry_defined:
  "item \<noteq> VNull \<Longrightarrow> item \<noteq> VUndefined \<Longrightarrow>
   isFunctionEntry te item = Inr (entryType item = VString ''function'')"
  by (cases item) (simp_all add: isFunctionEntry_def entryType_def)

text \<open>
  Claim C7. For every ABI whose entries are not \<^verbatim>\<open>null\<close> or \<^verbatim>\<open>undefined\<close> (an ABI entry
  is an object), the extractor does not throw and returns exactly the entries whose type
  tag is \<^verbatim>\<open>"function"\<close>, in their original order and with their multiplicity: it is the
  sublist selected by the tag test. The result depends on the ABI alone.
\<close>

theorem extractFunctions_exact:
  assumes "list_all (\<lambda>item. item \<noteq> VNull \<and> item \<noteq> VUndefined) entries"
  shows "extractFunctions te entries =
           Inr (filter (\<lambda>item. entryType item = VString ''function'') entries)"
  using assms by (induction entries) (simp_all add: isFunctionEntry_defined)

theorem extractFunctions_exact_witness:
  "list_all (\<lambda>item. item \<noteq> VNull \<and> item \<noteq> VUndefined) exampleAbi
   \<and> extractFunctions ''TypeError'' exampleAbi =
       Inr [VObject [(''type'', VString ''function''), (''name'', VString ''totalSupply'')],
            VObject [(''type'', VString ''function''), (''name'', VString ''mint'')]]"
proof -
  have h: "list_all (\<lambda>item. item \<noteq> VNull \<and> item \<noteq> VUndefined) exampleAbi"
    by (simp add: exampleAbi_def)
  show ?thesis
    using h extractFunctions_exact [OF h, of "''TypeError''"]
    by (simp add: exampleAbi_def entryType_def)
qed

section \<open>Coercion\<close>

lemma str_includes_prefix: "prefix sub t \<Longrightarrow> str_includes t sub"
  by (cases t) simp_all

lemma str_includes_uint: "prefix ''uint'' t \<Longrightarrow> str_includes t ''int''"
  by (auto simp: prefix_def)

lemma valueOf_inherited: "objectPrototype ''valueOf'' = Some (VBuiltin ''valueOf'')"
  by (simp add: objectPrototype_def objectPrototypeKeys_def)

text \<open>
  What the coercion does with a raw string. When the inputs are a record and the
  parameter has a stored raw string \<open>v\<close>, or has none and its name is not a member of
  \<^verbatim>\<open>Object.prototype\<close> (then \<open>v\<close> is the empty string): an integer-typed parameter gives
  the bigint 0 for the empty string and otherwise what \<^verbatim>\<open>ethers.getBigInt\<close> parses from
  \<open>v\<close>; a \<^verbatim>\<open>bool\<close> parameter gives the boolean that says whether the lower-cased \<open>v\<close>
  equals \<^verbatim>\<open>"true"\<close>.
\<close>

lemma coerce_stored_string:
  assumes "m n = Some v \<or> m n = None \<and> objectPrototype n = None \<and> v = []"
  shows "(prefix ''uint'' t \<or> prefix ''int'' t \<longrightarrow>
            coerceInput E (OwnInputs m) \<lparr>paramName = n, paramType = t\<rparr> =
              (if v = [] then Inr (VBigInt 0)
               else map_sum id VBigInt (getBigInt E (VString v))))
         \<and> coerceInput E (OwnInputs m) \<lparr>paramName = n, paramType = ''bool''\<rparr> =
              Inr (VBool (toLowerCase v = ''true''))"
proof -
  have "rawValue E (OwnInputs m) n = Inr (VString v)"
    using assms by (auto simp: rawValue_def)
  then show ?thesis
    by (auto simp: coerceInput_def coerceValue_def str_includes_prefix str_includes_uint)
qed

lemma coerce_stored_string_examples:
  "coerceInput exampleEnv (OwnInputs [''amount'' \<mapsto> []])
     \<lparr>paramName = ''amount'', paramType = ''uint256''\<rparr> = Inr (VBigInt 0)
   \<and> coerceInput exampleEnv (OwnInputs Map.empty)
     \<lparr>paramName = ''amount'', paramType = ''uint256''\<rparr> = Inr (VBigInt 0)
   \<and> coerceInput exampleEnv (OwnInputs [''amount'' \<mapsto> ''7''])
     \<lparr>paramName = ''amount'', paramType = ''uint256''\<rparr> = Inr (VBigInt 7)
   \<and> coerceInput exampleEnv (OwnInputs [''flag'' \<mapsto> ''TRUE''])
     \<lparr>paramName = ''flag'', paramType = ''bool''\<rparr> = Inr (VBool True)
   \<and> coerceInput exampleEnv (OwnInputs [''flag'' \<mapsto> ''false''])
     \<lparr>paramName = ''flag'', paramType = ''bool''\<rparr> = Inr (VBool False)
   \<and> coerceInput exampleEnv (OwnInputs [''valueOf'' \<mapsto> ''7''])
     \<lparr>paramName = ''valueOf'', paramType = ''uint256''\<rparr> = Inr (VBigInt 7)"
  by (simp add: coerceInput_def coerceValue_def rawValue_def exampleEnv_def toLowerCase_def
      lowerChar_def objectPrototype_def objectPrototypeKeys_def)

text \<open>
  Claim C8. The claim asks, for every integer-typed parameter, the bigint 0 when there is
  no raw string, and for every \<^verbatim>\<open>bool\<close> parameter \<^verbatim>\<open>false\<close>. For a parameter that has no
  stored value and is named after a member of \<^verbatim>\<open>Object.prototype\<close>, such as
  \<^verbatim>\<open>valueOf\<close>, the read \<^verbatim>\<open>inputs[input.name]\<close> gives the inherited function, which is
  truthy, so \<^verbatim>\<open>|| ""\<close> does not replace it: the integer branch hands the function to
  \<^verbatim>\<open>ethers.getBigInt\<close> instead of giving 0, and the \<^verbatim>\<open>bool\<close> branch calls
  \<^verbatim>\<open>toLowerCase\<close> on it, a TypeError. With a stored string, the empty one included, the
  same parameter is coerced as the claim says.
\<close>

theorem coerce_inherited_member:
  "coerceInput E (OwnInputs Map.empty) \<lparr>paramName = ''valueOf'', paramType = ''uint256''\<rparr>
     = map_sum id VBigInt (getBigInt E (VBuiltin ''valueOf''))
   \<and> coerceInput E (OwnInputs Map.empty) \<lparr>paramName = ''valueOf'', paramType = ''bool''\<rparr>
     = Inl (typeError E)
   \<and> coerceInput exampleEnv (OwnInputs Map.empty)
       \<lparr>paramName = ''valueOf'', paramType = ''uint256''\<rparr>
     = Inl ''invalid BigNumberish string''
   \<and> coerceInput E (OwnInputs [''valueOf'' \<mapsto> []])
       \<lparr>paramName = ''valueOf'', paramType = ''uint256''\<rparr>
     = Inr (VBigInt 0)
   \<and> coerceInput E (OwnInputs [''valueOf'' \<mapsto> []])
       \<lparr>paramName = ''valueOf'', paramType = ''bool''\<rparr>
     = Inr (VBool False)"
  by (simp add: coerceInput_def coerceValue_def rawValue_def valueOf_inherited exampleEnv_def
      toLowerCase_def)

text \<open>
  Claim C1. The claim asks that an input of type \<^verbatim>\<open>uint256[]\<close> with the raw string
  \<^verbatim>\<open>[1,2,3]\<close> be parsed as a JSON array and that \<^verbatim>\<open>not-json\<close> give the empty sequence. The
  type \<^verbatim>\<open>uint256[]\<close> contains \<^verbatim>\<open>int\<close>, so the first branch takes it: the raw string goes to
  \<^verbatim>\<open>ethers.getBigInt\<close>, \<^verbatim>\<open>JSON.parse\<close> is never consulted, and the outcome is a bigint or
  an exception, never a sequence.
\<close>

theorem coerce_uint_array_takes_integer_branch:
  "coerceInput E (OwnInputs [''ids'' \<mapsto> ''[1,2,3]''])
       \<lparr>paramName = ''ids'', paramType = ''uint256[]''\<rparr>
     = map_sum id VBigInt (getBigInt E (VString ''[1,2,3]''))
   \<and> coerceInput E (OwnInputs [''ids'' \<mapsto> ''[1,2,3]''])
       \<lparr>paramName = ''ids'', paramType = ''uint256[]''\<rparr>
     \<noteq> Inr (VArray [VNumber 1, VNumber 2, VNumber 3])
   \<and> coerceInput E (OwnInputs [''ids'' \<mapsto> ''not-json''])
       \<lparr>paramName = ''ids'', paramType = ''uint256[]''\<rparr>
     = map_sum id VBigInt (getBigInt E (VString ''not-json''))
   \<and> coerceInput E (OwnInputs [''ids'' \<mapsto> ''not-json''])
       \<lparr>paramName = ''ids'', paramType = ''uint256[]''\<rparr>
     \<noteq> Inr (VArray [])"
proof -
  have "map_sum id VBigInt x \<noteq> Inr (VArray ys)" for x :: "int thrown" and ys
    by (cases x) simp_all
  then show ?thesis
    by (simp add: coerceInput_def coerceValue_def rawValue_def)
qed

theorem coerce_uint_array_takes_integer_branch_witness:
  "coerceInput exampleEnv (OwnInputs [''ids'' \<mapsto> ''[1,2,3]''])
       \<lparr>paramName = ''ids'', paramType = ''uint256[]''\<rparr>
     = Inl ''invalid BigNumberish string''
   \<and> coerceInput exampleEnv (OwnInputs [''ids'' \<mapsto> ''not-json''])
       \<lparr>paramName = ''ids'', paramType = ''uint256[]''\<rparr>
     = Inl ''invalid BigNumberish string''"
  using coerce_uint_array_takes_integer_branch [of exampleEnv]
  by (simp add: exampleEnv_def)

text \<open>
  For comparison, an array type without \<^verbatim>\<open>int\<close> in its name reaches the array branch:
  the raw string is parsed as JSON and a parse failure gives the empty sequence.
\<close>

lemma coerce_address_array:
  "coerceInput E (OwnInputs [n \<mapsto> v]) \<lparr>paramName = n, paramType = ''address[]''\<rparr> =
     (case jsonParse E (if v \<noteq> [] then VString v else VString ''[]'') of
        Inl e \<Rightarrow> Inr (VArray [])
      | Inr j \<Rightarrow> Inr j)"
  by (simp add: coerceInput_def coerceValue_def rawValue_def)

section \<open>The form state\<close>

lemma storedInputs_handleInputChange:
  "storedInputs (handleInputChange f p v s) fn =
     (if f = fn then (storedInputs s fn)(p \<mapsto> v) else storedInputs s fn)"
  by (simp add: storedInputs_def handleInputChange_def)

lemma latestValues_Cons:
  "latestValues ((f, p, v) # cs) fn =
     (if f = fn then [p \<mapsto> v] ++ latestValues cs fn else latestValues cs fn)"
  by (simp add: latestValues_def)

lemma latestValues_untouched:
  "fn \<notin> set (map fst calls) \<Longrightarrow> latestValues calls fn = Map.empty"
  by (induction calls) (auto simp: latestValues_def)

lemma upd_map_add: "m(p \<mapsto> v) ++ l = m ++ ([p \<mapsto> v] ++ l)"
  by (rule ext) (simp add: map_add_def split: option.splits)

text \<open>
  After a sequence of calls, the stored inputs of a function are those it had before,
  overridden by the most recent value of each parameter the calls set for it.
\<close>

lemma storedInputs_setInputs:
  "storedInputs (setInputs calls s) fn = storedInputs s fn ++ latestValues calls fn"
proof (induction calls arbitrary: s)
  case Nil
  show ?case by (simp add: setInputs_def latestValues_def)
next
  case (Cons c cs)
  obtain f p v where c: "c = (f, p, v)" by (cases c)
  have "storedInputs (setInputs (c # cs) s) fn
          = storedInputs (handleInputChange f p v s) fn ++ latestValues cs fn"
    using Cons.IH [of "handleInputChange f p v s"] by (simp add: setInputs_def c)
  also have "\<dots> = storedInputs s fn ++ latestValues (c # cs) fn"
  proof (cases "f = fn")
    case True
    then show ?thesis
      using upd_map_add [of "storedInputs s fn" p v "latestValues cs fn"]
      by (simp add: c storedInputs_handleInputChange latestValues_Cons)
  next
    case False
    then show ?thesis
      by (simp add: c storedInputs_handleInputChange latestValues_Cons)
  qed
  finally show ?case .
qed

text \<open>
  Reading the inputs of a function gives its stored inputs whenever the function has an
  own entry or its name is not a member of \<^verbatim>\<open>Object.prototype\<close>.
\<close>

lemma getInputs_stored:
  "functionInputs s fn \<noteq> None \<or> objectPrototype fn = None \<Longrightarrow>
   getInputs s fn = OwnInputs (storedInputs s fn)"
  by (auto simp: getInputs_def lookupInputs_def storedInputs_def split: option.splits)

text \<open>
  What holds of the form state. One \<^verbatim>\<open>handleInputChange\<close> stores the value under its
  function and parameter name, gives the function an own entry, and leaves the entries
  of every other function and the other parameters of the same function as they were.
  After any sequence of calls from the initial state the stored inputs of a function are
  the most recent value per parameter name, and they are what is read for the function
  when a call named it or its name is not a member of \<^verbatim>\<open>Object.prototype\<close>.
\<close>

lemma setInput_frame:
  "getInputs (handleInputChange fn p v s) fn = OwnInputs ((storedInputs s fn)(p \<mapsto> v))
   \<and> (fn' \<noteq> fn \<longrightarrow> functionInputs (handleInputChange fn p v s) fn' = functionInputs s fn')
   \<and> (p' \<noteq> p \<longrightarrow> storedInputs (handleInputChange fn p v s) fn p' = storedInputs s fn p')
   \<and> storedInputs (setInputs calls initialState) fn = latestValues calls fn
   \<and> (fn \<in> set (map fst calls) \<or> objectPrototype fn = None \<longrightarrow>
        getInputs (setInputs calls initialState) fn = OwnInputs (latestValues calls fn))"
proof -
  have e: "storedInputs initialState fn = Map.empty"
    by (simp add: storedInputs_def initialState_def)
  have st: "storedInputs (setInputs calls initialState) fn = latestValues calls fn"
    by (simp add: storedInputs_setInputs e)
  have own: "functionInputs (setInputs calls s0) fn \<noteq> None" if "fn \<in> set (map fst calls)" for s0
    using that
  proof (induction calls arbitrary: s0 rule: rev_induct)
    case Nil
    then show ?case by simp
  next
    case (snoc c cs)
    obtain f p' v' where c: "c = (f, p', v')" by (cases c)
    show ?case
    proof (cases "f = fn")
      case True
      then show ?thesis by (simp add: setInputs_def c handleInputChange_def)
    next
      case False
      with snoc.prems c have "fn \<in> set (map fst cs)" by auto
      from snoc.IH [OF this, of s0] False show ?thesis
        by (simp add: setInputs_def c handleInputChange_def)
    qed
  qed
  have g: "getInputs (setInputs calls initialState) fn = OwnInputs (latestValues calls fn)"
    if "fn \<in> set (map fst calls) \<or> objectPrototype fn = None"
    using that own [of initialState] getInputs_stored [of "setInputs calls initialState" fn] st
    by auto
  have h: "getInputs (handleInputChange fn p v s) fn = OwnInputs ((storedInputs s fn)(p \<mapsto> v))"
    by (simp add: getInputs_def lookupInputs_def storedInputs_def handleInputChange_def)
  show ?thesis
    using g h st by (simp add: storedInputs_handleInputChange) (simp add: handleInputChange_def)
qed

text \<open>
  Claim C9. The claim asks that reading the inputs of a never-touched function give an
  empty mapping, and that reading give exactly the stored values. The store is a plain
  object: for a never-touched function named after a member of \<^verbatim>\<open>Object.prototype\<close>,
  such as \<^verbatim>\<open>valueOf\<close>, \<^verbatim>\<open>functionInputs[functionName]\<close> is the inherited function, which
  is truthy, so \<^verbatim>\<open>|| {}\<close> does not replace it. Its parameters are then read off the
  function object: for inputs \<^verbatim>\<open>name\<close> and \<^verbatim>\<open>length\<close> the call receives the function's
  name and 0. In the same way a touched function reads an inherited function for an
  unset parameter named \<^verbatim>\<open>toString\<close>.
\<close>

theorem getInputs_inherited_member:
  "functionInputs initialState ''valueOf'' = None
   \<and> getInputs initialState ''valueOf'' = InheritedObject ''valueOf''
   \<and> getInputs initialState ''valueOf'' \<noteq> OwnInputs Map.empty
   \<and> coerceArgs exampleEnv (getInputs initialState (name valueOfFunction)) (inputs valueOfFunction)
       = Inr [VString ''valueOf'', VBigInt 0]
   \<and> rawValue E (getInputs (handleInputChange ''mint'' ''amount'' ''7'' initialState) ''mint'')
        ''toString''
       = Inr (VBuiltin ''toString'')
   \<and> getInputs initialState ''mint'' = OwnInputs Map.empty"
proof -
  have g: "getInputs initialState ''valueOf'' = InheritedObject ''valueOf''"
    by (simp add: getInputs_def lookupInputs_def initialState_def valueOf_inherited)
  have t: "objectPrototype ''toString'' = Some (VBuiltin ''toString'')"
    "objectPrototype ''mint'' = None"
    by (simp_all add: objectPrototype_def objectPrototypeKeys_def)
  show ?thesis
    by (simp add: g valueOfFunction_def coerceInput_def coerceValue_def rawValue_def exampleEnv_def)
       (simp add: getInputs_def lookupInputs_def initialState_def handleInputChange_def
          rawValue_def t)
qed

section \<open>The guard of the dispatcher\<close>

text \<open>
  Claim C10. When no contract instance or no wallet is connected, \<^verbatim>\<open>executeFunction\<close>
  returns the state it was given: the result log, the latest-by-function projection and
  the loading set are those of before.
\<close>

theorem executeFunction_guard:
  assumes "contract s = None \<or> wallet s = None"
  shows "executeFunction E now func s = s
         \<and> functionResults (executeFunction E now func s) = functionResults s
         \<and> latestFunctionResults (executeFunction E now func s) = latestFunctionResults s
         \<and> loadingFunctions (executeFunction E now func s) = loadingFunctions s"
proof -
  have "begin_invocation E now func s = None"
    using assms by (auto simp: begin_invocation_def split: option.splits)
  then show ?thesis by (simp add: executeFunction_def)
qed

theorem executeFunction_guard_witness:
  "(contract initialState = None \<or> wallet initialState = None)
   \<and> executeFunction exampleEnv 5 totalSupply initialState = initialState
   \<and> functionResults (executeFunction exampleEnv 5 totalSupply initialState) = []
   \<and> ''totalSupply'' \<notin> loadingFunctions (executeFunction exampleEnv 5 totalSupply initialState)"
proof -
  have h: "contract initialState = None \<or> wallet initialState = None"
    by (simp add: initialState_def)
  show ?thesis
    using h executeFunction_guard [OF h, of exampleEnv 5 totalSupply]
    by (simp add: initialState_def)
qed

section \<open>Recording an invocation\<close>

lemma executeFunction_connected:
  assumes "contract s = Some c" and "wallet s = Some w"
  shows "executeFunction E now func s =
           settle (mkResult (name func) (inputsSnapshot (getInputs s (name func))) now
                     (invoke E c func (getInputs s (name func))))
                  (s\<lparr>loadingFunctions := insert (name func) (loadingFunctions s)\<rparr>)"
  using assms by (simp add: executeFunction_def begin_invocation_def)

lemma functionName_mkResult: "functionName (mkResult fn ins now out) = fn"
  by (simp add: mkResult_def split: sum.splits prod.splits)

lemma settle_fields:
  "functionResults (settle r s) = r # functionResults s"
  "latestFunctionResults (settle r s) = (latestFunctionResults s)(functionName r \<mapsto> r)"
  "loadingFunctions (settle r s) = loadingFunctions s - {functionName r}"
  by (simp_all add: settle_def recordResult_def Let_def)

text \<open>What \<^verbatim>\<open>executeFunction\<close> records once connected, whatever the outcome.\<close>

lemma executeFunction_records:
  assumes "contract s = Some c" and "wallet s = Some w"
    and "r = mkResult (name func) (inputsSnapshot (getInputs s (name func))) now
               (invoke E c func (getInputs s (name func)))"
  shows "functionResults (executeFunction E now func s) = r # functionResults s"
    and "latestFunctionResults (executeFunction E now func s)
           = (latestFunctionResults s)(name func \<mapsto> r)"
    and "loadingFunctions (executeFunction E now func s) = loadingFunctions s - {name func}"
  unfolding executeFunction_connected [OF assms(1,2)] assms(3)
  by (simp_all add: settle_fields functionName_mkResult)

lemma connectedState_fields:
  "contract connectedState = Some exampleContract"
  "wallet connectedState = Some (Signer ''0xabc'')"
  "functionResults connectedState = []"
  "getInputs connectedState ''totalSupply'' = OwnInputs Map.empty"
  "getInputs connectedState ''getPoints'' = OwnInputs Map.empty"
  by (simp_all add: connectedState_def initialState_def getInputs_def lookupInputs_def
      objectPrototype_def objectPrototypeKeys_def)

section \<open>Normalization\<close>

lemma normalize_no_bigint: "\<not> containsBigInt v \<Longrightarrow> normalize_spec v = v"
proof (induction v rule: normalize_spec.induct)
  case (2 xs)
  then have "map normalize_spec xs = xs"
    by (intro map_idI) (auto simp: list_ex_iff)
  then show ?case by simp
next
  case (3 kvs)
  then have "map (map_prod id normalize_spec) kvs = kvs"
    by (intro map_idI) (auto simp: list_ex_iff)
  then show ?case by simp
qed simp_all

lemma formatItem_other: "\<not> isBigInt x \<Longrightarrow> formatItem x = x"
  by (cases x) auto

lemma formatItem_normalize:
  assumes "isBigInt x \<or> \<not> containsBigInt x"
  shows "formatItem x = normalize_spec x"
proof (cases "isBigInt x")
  case True
  then show ?thesis by (cases x) simp_all
next
  case False
  with assms have "\<not> containsBigInt x" by simp
  with False show ?thesis by (simp add: normalize_no_bigint formatItem_other)
qed

lemma formatItem_clean:
  "isBigInt x \<or> \<not> containsBigInt x \<Longrightarrow> \<not> containsBigInt (formatItem x)"
  by (cases x) auto

text \<open>
  Claim C2. The claim asks that every bigint at any nesting depth of the result become its
  decimal string. The formatting looks one level down and no further: a bigint inside a
  sequence (or record) inside the result is part of an item that is not itself a bigint,
  and the callback returns that item as it is. A read call that returns a sequence of
  sequences is recorded with its bigints still in it. The page then renders the recorded
  result with \<^verbatim>\<open>JSON.stringify\<close>, which throws on a bigint.
\<close>

theorem formatResult_keeps_nested_bigint:
  "formatResult (VArray [VArray [VBigInt 1]]) = VArray [VArray [VBigInt 1]]
   \<and> containsBigInt (formatResult (VArray [VArray [VBigInt 1]]))
   \<and> formatResult (VArray [VArray [VBigInt 1]]) \<noteq> normalize_spec (VArray [VArray [VBigInt 1]])
   \<and> formatResult (VObject [(''a'', VObject [(''b'', VBigInt 1)])])
       = VObject [(''a'', VObject [(''b'', VBigInt 1)])]
   \<and> map result (functionResults (executeFunction exampleEnv 5 getPoints connectedState))
       = [VArray [VArray [VBigInt 1]]]"
proof -
  have "functionResults (executeFunction exampleEnv 5 getPoints connectedState) =
      mkResult (name getPoints) (inputsSnapshot (getInputs connectedState (name getPoints))) 5
        (invoke exampleEnv exampleContract getPoints (getInputs connectedState (name getPoints)))
      # functionResults connectedState"
    using connectedState_fields(1,2) by (rule executeFunction_records(1)) simp
  moreover have "invoke exampleEnv exampleContract getPoints ins
                   = Inr (VArray [VArray [VBigInt 1]], None, None)" for ins
    by (simp add: invoke_def getPoints_def exampleContract_def)
  ultimately show ?thesis
    by (simp add: mkResult_def connectedState_fields)
qed

text \<open>
  What the formatting does achieve. A bigint result, every bigint that is an item of a
  sequence result and every bigint that is a property value of a record result become
  decimal strings. When the result holds no bigint anywhere else, this is the full
  recursive normalization and the outcome holds no bigint. Items and property values
  that are not themselves bigints pass through unchanged with whatever they contain, as
  does every other shape of result that a call can return.
\<close>

lemma formatResult_top_level:
  "formatResult (VBigInt n) = VString (bigintToString n)
   \<and> (bigIntsAtTop v \<and> (\<forall>k. v \<noteq> VBuiltin k) \<longrightarrow>
        formatResult v = normalize_spec v \<and> \<not> containsBigInt (formatResult v))
   \<and> (list_all (\<lambda>x. \<not> isBigInt x) xs \<longrightarrow> formatResult (VArray xs) = VArray xs)
   \<and> (list_all (\<lambda>x. \<not> isBigInt x) (map snd kvs) \<longrightarrow> formatResult (VObject kvs) = VObject kvs)
   \<and> (\<not> isArray v \<and> \<not> isObject v \<and> \<not> isBigInt v \<and> (\<forall>k. v \<noteq> VBuiltin k) \<longrightarrow>
        formatResult v = v)"
proof (intro conjI impI)
  show "formatResult (VBigInt n) = VString (bigintToString n)" by simp
next
  assume b: "bigIntsAtTop v \<and> (\<forall>k. v \<noteq> VBuiltin k)"
  show "formatResult v = normalize_spec v"
  proof (cases v)
    case (VArray ys)
    with b show ?thesis by (auto simp: list_all_iff formatItem_normalize)
  next
    case (VObject ps)
    with b show ?thesis by (auto simp: list_all_iff formatItem_normalize)
  qed (use b in simp_all)
  show "\<not> containsBigInt (formatResult v)"
  proof (cases v)
    case (VArray ys)
    with b show ?thesis by (auto simp: list_all_iff list_ex_iff formatItem_clean)
  next
    case (VObject ps)
    with b show ?thesis by (auto simp: list_all_iff list_ex_iff formatItem_clean)
  qed simp_all
next
  assume "list_all (\<lambda>x. \<not> isBigInt x) xs"
  then have "map formatItem xs = xs"
    by (intro map_idI) (auto simp: list_all_iff formatItem_other)
  then show "formatResult (VArray xs) = VArray xs" by simp
next
  assume "list_all (\<lambda>x. \<not> isBigInt x) (map snd kvs)"
  then have "map (\<lambda>(k, v). (k, formatItem v)) kvs = kvs"
    by (intro map_idI) (auto simp: list_all_iff formatItem_other)
  then show "formatResult (VObject kvs) = VObject kvs" by simp
next
  assume "\<not> isArray v \<and> \<not> isObject v \<and> \<not> isBigInt v \<and> (\<forall>k. v \<noteq> VBuiltin k)"
  then show "formatResult v = v" by (cases v) simp_all
qed

lemma formatResult_top_level_examples:
  "formatResult (VBigInt 123456789012345678901234567890)
     = VString ''123456789012345678901234567890''
   \<and> formatResult (VObject [(''a'', VBigInt 42), (''b'', VString ''x'')])
       = VObject [(''a'', VString ''42''), (''b'', VString ''x'')]
   \<and> normalize_spec (VObject [(''a'', VBigInt 42), (''b'', VString ''x'')])
       = VObject [(''a'', VString ''42''), (''b'', VString ''x'')]
   \<and> formatResult (VArray [VArray [VBigInt 1], VString ''y''])
       = VArray [VArray [VBigInt 1], VString ''y'']
   \<and> formatResult (VString ''z'') = VString ''z''"
  by (simp add: bigintToString_def natDigits.simps digitChar_def)

section \<open>Successful reads\<close>

text \<open>
  What holds of a successful read. When a contract and a wallet are connected, the
  function is \<^verbatim>\<open>view\<close> or \<^verbatim>\<open>pure\<close>, the coercion of its inputs succeeds and the read call
  resolves to a value, \<^verbatim>\<open>executeFunction\<close> prepends exactly one result to the log and
  stores the same result as the latest for the function name. That result has no error,
  no transaction hash and no gas figure, and its \<^verbatim>\<open>result\<close> is the formatted return
  value, which is the normalized return value when the value holds no bigint deeper than
  one level.
\<close>

lemma view_success:
  assumes "contract s = Some c" and "wallet s = Some w"
    and "stateMutability func = ''view'' \<or> stateMutability func = ''pure''"
    and "coerceArgs E (getInputs s (name func)) (inputs func) = Inr args"
    and "readCall c (name func) args = Inr v"
  shows "functionResults (executeFunction E now func s) =
           \<lparr>functionName = name func, resultInputs = inputsSnapshot (getInputs s (name func)),
            result = formatResult v, error = None, gasUsed = None, transactionHash = None,
            timestamp = now\<rparr> # functionResults s
         \<and> latestFunctionResults (executeFunction E now func s) =
             (latestFunctionResults s)
               (name func \<mapsto>
                  \<lparr>functionName = name func,
                   resultInputs = inputsSnapshot (getInputs s (name func)),
                   result = formatResult v, error = None, gasUsed = None,
                   transactionHash = None, timestamp = now\<rparr>)
         \<and> (bigIntsAtTop v \<and> (\<forall>k. v \<noteq> VBuiltin k) \<longrightarrow> formatResult v = normalize_spec v)"
proof -
  have "invoke E c func (getInputs s (name func)) = Inr (v, None, None)"
    using assms(3-5) by (auto simp: invoke_def)
  then have "mkResult (name func) (inputsSnapshot (getInputs s (name func))) now
               (invoke E c func (getInputs s (name func)))
             = \<lparr>functionName = name func,
                resultInputs = inputsSnapshot (getInputs s (name func)),
                result = formatResult v, error = None, gasUsed = None, transactionHash = None,
                timestamp = now\<rparr>"
    by (simp add: mkResult_def)
  then show ?thesis
    using executeFunction_records(1,2) [OF assms(1,2) refl, where func = func and now = now and E = E]
      formatResult_top_level [of _ v]
    by simp
qed

text \<open>
  Claim C5. The claim asks that the recorded \<^verbatim>\<open>result\<close> of every successful \<^verbatim>\<open>view\<close> call
  be the normalized return value. A successful read that returns a sequence of sequences
  of bigints is recorded as exactly one new result with no error and no transaction
  hash, prepended and stored as latest, but its \<^verbatim>\<open>result\<close> is the return value as it came,
  bigints included, and not its normalization. This is the defect of claim C2, seen at the
  recorded result.
\<close>

theorem view_result_not_normalized:
  "functionResults (executeFunction exampleEnv 5 getPoints connectedState) =
     [\<lparr>functionName = ''getPoints'', resultInputs = Map.empty,
       result = VArray [VArray [VBigInt 1]], error = None, gasUsed = None,
       transactionHash = None, timestamp = 5\<rparr>]
   \<and> latestFunctionResults (executeFunction exampleEnv 5 getPoints connectedState) ''getPoints'' =
       Some \<lparr>functionName = ''getPoints'', resultInputs = Map.empty,
             result = VArray [VArray [VBigInt 1]], error = None, gasUsed = None,
             transactionHash = None, timestamp = 5\<rparr>
   \<and> readCall exampleContract ''getPoints'' [] = Inr (VArray [VArray [VBigInt 1]])
   \<and> normalize_spec (VArray [VArray [VBigInt 1]]) = VArray [VArray [VString ''1'']]
   \<and> map result (functionResults (executeFunction exampleEnv 5 getPoints connectedState))
       \<noteq> [normalize_spec (VArray [VArray [VBigInt 1]])]"
proof -
  have 3: "stateMutability getPoints = ''view'' \<or> stateMutability getPoints = ''pure''"
    by (simp add: getPoints_def)
  have 4: "coerceArgs exampleEnv (getInputs connectedState (name getPoints)) (inputs getPoints)
             = Inr []"
    by (simp add: getPoints_def)
  have 5: "readCall exampleContract (name getPoints) [] = Inr (VArray [VArray [VBigInt 1]])"
    by (simp add: getPoints_def exampleContract_def)
  have n: "name getPoints = ''getPoints''"
    by (simp add: getPoints_def)
  have d: "bigintToString 1 = ''1''"
    by (simp add: bigintToString_def natDigits.simps digitChar_def)
  show ?thesis
    using view_success [OF connectedState_fields(1,2) 3 4 5, of 5] 5
    by (simp add: n connectedState_fields d)
qed

section \<open>Failed invocations\<close>

text \<open>
  Claim C6. When a contract and a wallet are connected, every invocation ends with the
  function name out of the loading set. When the coercion throws, or the read call
  rejects, or the transaction is rejected on submission or while awaited (or its receipt
  is \<^verbatim>\<open>null\<close>, a TypeError), with message \<open>m\<close>, the invocation returns a state (nothing
  is thrown) in which exactly one result has been prepended to the log and stored as the
  latest for the function name: its \<^verbatim>\<open>result\<close> is \<^verbatim>\<open>null\<close>, its \<^verbatim>\<open>error\<close> is \<open>m\<close>, and it
  has neither transaction hash nor gas figure.
\<close>

theorem failure_recorded:
  assumes "contract s = Some c" and "wallet s = Some w"
  shows "name func \<notin> loadingFunctions (executeFunction E now func s)
    \<and> (coerceArgs E (getInputs s (name func)) (inputs func) = Inl m
         \<or> (\<exists>args. coerceArgs E (getInputs s (name func)) (inputs func) = Inr args
               \<and> ((stateMutability func = ''view'' \<or> stateMutability func = ''pure'')
                    \<and> readCall c (name func) args = Inl m
                  \<or> stateMutability func \<noteq> ''view'' \<and> stateMutability func \<noteq> ''pure''
                    \<and> (sendTransaction c (name func) args = Inl m
                       \<or> (\<exists>tx. sendTransaction c (name func) args = Inr tx
                              \<and> (wait tx = Inl m \<or> wait tx = Inr None \<and> m = typeError E)))))
       \<longrightarrow>
         functionResults (executeFunction E now func s) =
           \<lparr>functionName = name func, resultInputs = inputsSnapshot (getInputs s (name func)),
            result = VNull, error = Some m, gasUsed = None, transactionHash = None,
            timestamp = now\<rparr>
           # functionResults s
         \<and> latestFunctionResults (executeFunction E now func s) =
             (latestFunctionResults s)
               (name func \<mapsto>
                  \<lparr>functionName = name func,
                   resultInputs = inputsSnapshot (getInputs s (name func)),
                   result = VNull, error = Some m, gasUsed = None, transactionHash = None,
                   timestamp = now\<rparr>))"
proof (intro conjI impI)
  show "name func \<notin> loadingFunctions (executeFunction E now func s)"
    using executeFunction_records(3) [OF assms refl, where func = func and now = now and E = E]
    by simp
next
  assume "coerceArgs E (getInputs s (name func)) (inputs func) = Inl m
         \<or> (\<exists>args. coerceArgs E (getInputs s (name func)) (inputs func) = Inr args
               \<and> ((stateMutability func = ''view'' \<or> stateMutability func = ''pure'')
                    \<and> readCall c (name func) args = Inl m
                  \<or> stateMutability func \<noteq> ''view'' \<and> stateMutability func \<noteq> ''pure''
                    \<and> (sendTransaction c (name func) args = Inl m
                       \<or> (\<exists>tx. sendTransaction c (name func) args = Inr tx
                              \<and> (wait tx = Inl m \<or> wait tx = Inr None \<and> m = typeError E)))))"
  then have "invoke E c func (getInputs s (name func)) = Inl m"
    by (auto simp: invoke_def)
  then have r: "mkResult (name func) (inputsSnapshot (getInputs s (name func))) now
               (invoke E c func (getInputs s (name func)))
             = \<lparr>functionName = name func,
                resultInputs = inputsSnapshot (getInputs s (name func)),
                result = VNull, error = Some m, gasUsed = None, transactionHash = None,
                timestamp = now\<rparr>"
    by (simp add: mkResult_def)
  show "functionResults (executeFunction E now func s) =
           \<lparr>functionName = name func, resultInputs = inputsSnapshot (getInputs s (name func)),
            result = VNull, error = Some m, gasUsed = None, transactionHash = None,
            timestamp = now\<rparr>
           # functionResults s"
    using executeFunction_records(1) [OF assms refl, where func = func and now = now and E = E] r
    by simp
  show "latestFunctionResults (executeFunction E now func s) =
             (latestFunctionResults s)
               (name func \<mapsto>
                  \<lparr>functionName = name func,
                   resultInputs = inputsSnapshot (getInputs s (name func)),
                   result = VNull, error = Some m, gasUsed = None, transactionHash = None,
                   timestamp = now\<rparr>)"
    using executeFunction_records(2) [OF assms refl, where func = func and now = now and E = E] r
    by simp
qed

theorem failure_recorded_witness:
  "contract mintState = Some exampleContract
   \<and> wallet mintState = Some (Signer ''0xabc'')
   \<and> coerceArgs exampleEnv (getInputs mintState (name mint)) (inputs mint) = Inr [VBigInt 7]
   \<and> stateMutability mint \<noteq> ''view'' \<and> stateMutability mint \<noteq> ''pure''
   \<and> sendTransaction exampleContract (name mint) [VBigInt 7] = Inl ''execution reverted''
   \<and> ''mint'' \<notin> loadingFunctions (executeFunction exampleEnv 9 mint mintState)
   \<and> functionResults (executeFunction exampleEnv 9 mint mintState) =
       [\<lparr>functionName = ''mint'', resultInputs = [''amount'' \<mapsto> ''7''], result = VNull,
         error = Some ''execution reverted'', gasUsed = None, transactionHash = None,
         timestamp = 9\<rparr>]"
proof -
  have 1: "contract mintState = Some exampleContract"
    and 2: "wallet mintState = Some (Signer ''0xabc'')"
    by (simp_all add: mintState_def connectedState_def handleInputChange_def)
  have g: "getInputs mintState ''mint'' = OwnInputs [''amount'' \<mapsto> ''7'']"
    by (simp add: mintState_def getInputs_def lookupInputs_def handleInputChange_def
        connectedState_def initialState_def)
  have 3: "coerceArgs exampleEnv (getInputs mintState (name mint)) (inputs mint) = Inr [VBigInt 7]"
    by (simp add: mint_def g coerceInput_def coerceValue_def rawValue_def exampleEnv_def)
  have 4: "stateMutability mint \<noteq> ''view'' \<and> stateMutability mint \<noteq> ''pure''"
    by (simp add: mint_def)
  have 5: "sendTransaction exampleContract (name mint) [VBigInt 7] = Inl ''execution reverted''"
    by (simp add: exampleContract_def)
  have l: "functionResults mintState = []"
    by (simp add: mintState_def connectedState_def initialState_def handleInputChange_def)
  have n: "name mint = ''mint''"
    by (simp add: mint_def)
  show ?thesis
    using 1 2 3 4 5
      failure_recorded [OF 1 2, where func = mint and E = exampleEnv and now = 9
        and m = "''execution reverted''"]
    by (simp add: l g n)
qed

section \<open>The result log\<close>

lemma begin_log:
  "begin_invocation E now func s = Some (s1, r) \<Longrightarrow> functionResults s1 = functionResults s"
  by (auto simp: begin_invocation_def split: option.splits)

lemma executeFunction_log:
  "functionResults (executeFunction E now func s) =
     (case contract s of
        None \<Rightarrow> functionResults s
      | Some c \<Rightarrow>
          (case wallet s of
             None \<Rightarrow> functionResults s
           | Some w \<Rightarrow>
               mkResult (name func) (inputsSnapshot (getInputs s (name func))) now
                 (invoke E c func (getInputs s (name func))) # functionResults s))"
  by (simp add: executeFunction_def begin_invocation_def settle_fields split: option.splits)

lemma connectBrowserWallet_log:
  "functionResults (fst (connectBrowserWallet p w s)) = functionResults s"
  by (simp add: connectBrowserWallet_def split: sum.splits prod.splits)

lemma connectPrivateKey_log:
  "functionResults (fst (connectPrivateKey w s)) = functionResults s"
  by (simp add: connectPrivateKey_def split: sum.splits prod.splits)

lemma connectFailed_log: "functionResults (connectFailed m s) = functionResults s"
  by (simp add: connectFailed_def)

text \<open>
  A connection attempt empties the log exactly when it reaches the statements that clear
  the results; an attempt that fails before them leaves the log as it is. Whether the
  contract constructor then throws makes no difference.
\<close>

lemma connectToContract_log:
  "functionResults (connectToContract te p w mk s) =
     (if connectResets te p w s then [] else functionResults s)"
proof (cases "currentContractData s")
  case None
  then show ?thesis
    by (simp add: connectToContract_def connectResets_def connectFailed_log)
next
  case (Some d)
  obtain addr a where d: "d = (addr, a)" by (cases d)
  show ?thesis
  proof (cases "authMethod s = browserWallet")
    case True
    with Some d show ?thesis
      by (cases p; cases w; cases "filterAbi te a"; cases "mk addr a (fst (projr w))")
         (auto simp: connectToContract_def connectResets_def connectFailed_log Let_def
            connectBrowserWallet_def)
  next
    case False
    with Some d show ?thesis
      by (cases "privateKey s = []"; cases w; cases "filterAbi te a";
          cases "mk addr a (fst (projr w))")
         (auto simp: connectToContract_def connectResets_def connectFailed_log Let_def
            connectPrivateKey_def)
  qed
qed

lemma other_log:
  "functionResults (handleInputChange fn i v s) = functionResults s"
  "functionResults (handleContractSelection n s) = functionResults s"
  "functionResults (fst (loadContractFiles te l f s)) = functionResults s"
  by (auto simp: handleInputChange_def handleContractSelection_def loadContractFiles_def
      split: option.splits sum.splits prod.splits)

lemma start_log: "functionResults (step E (Start now func) s) = functionResults s"
  by (auto dest: begin_log split: option.splits)

text \<open>An event that is not a connection attempt keeps the log or prepends one result.\<close>

lemma step_log:
  "\<not> isConnect ev \<Longrightarrow>
   functionResults (step E ev s) = functionResults s
   \<or> (\<exists>r. functionResults (step E ev s) = r # functionResults s)"
proof (cases ev)
  case (Execute now func)
  then show ?thesis
    by (simp add: executeFunction_log split: option.splits)
next
  case (Start now func)
  then show ?thesis using start_log [of E now func s] by simp
qed (simp_all add: other_log settle_fields)

lemma steps_suffix:
  "list_all (\<lambda>e. \<not> isConnect e) evs \<Longrightarrow>
   suffix (functionResults s) (functionResults (fold (step E) evs s))"
proof (induction evs arbitrary: s)
  case Nil
  show ?case by simp
next
  case (Cons e es)
  have "suffix (functionResults s) (functionResults (step E e s))"
    using step_log [of e E s] Cons.prems by (auto simp: suffix_def)
  moreover have "suffix (functionResults (step E e s))
                   (functionResults (fold (step E) es (step E e s)))"
    using Cons by simp
  ultimately show ?case by (auto intro: suffix_order.trans)
qed

text \<open>
  Claim C4, as stated: no operation removes entries of the log. It fails for
  \<^verbatim>\<open>connectToContract\<close>, which calls \<^verbatim>\<open>setFunctionResults([])\<close> under the comment
  ``Clear previous results'': a successful connection on a state whose log holds one
  result leaves an empty log.
\<close>

theorem connect_clears_log:
  "functionResults loggedState = [olderResult]
   \<and> functionResults (step exampleEnv connectAnswer loggedState) = []
   \<and> \<not> suffix (functionResults loggedState)
          (functionResults (step exampleEnv connectAnswer loggedState))"
proof -
  have 1: "functionResults loggedState = [olderResult]"
    by (simp add: loggedState_def)
  have 2: "functionResults (step exampleEnv connectAnswer loggedState) = []"
    by (simp add: connectAnswer_def connectToContract_def loggedState_def connectedState_def
        initialState_def connectBrowserWallet_def filterAbi_def)
  show ?thesis by (simp add: 1 2)
qed

text \<open>
  Claim C4, amended. Changing an input, selecting a contract, loading the catalog and
  starting an invocation leave the result log as it is. Settling an invocation prepends
  its result, and so does a whole \<^verbatim>\<open>executeFunction\<close> when a contract and a wallet are
  connected (otherwise it leaves the log as it is). A connection attempt empties the log
  exactly when a contract is selected, the wallet step gives a signer and the ABI filter
  does not throw, whether or not the contract constructor then throws; an attempt that
  fails before that leaves the log as it is. Hence over any sequence of events with no
  connection attempt among them the earlier log is a suffix of the later one: its entries
  are kept, in place and unmodified.
\<close>

theorem result_log_prepend_or_clear:
  "functionResults (step E (InputChange fn i v) s) = functionResults s
   \<and> functionResults (step E (SelectContract n) s) = functionResults s
   \<and> functionResults (step E (LoadFiles l f) s) = functionResults s
   \<and> functionResults (step E (Start now func) s) = functionResults s
   \<and> functionResults (step E (Settle r) s) = r # functionResults s
   \<and> functionResults (step E (Execute now func) s) =
       (case contract s of
          None \<Rightarrow> functionResults s
        | Some c \<Rightarrow>
            (case wallet s of
               None \<Rightarrow> functionResults s
             | Some w \<Rightarrow>
                 mkResult (name func) (inputsSnapshot (getInputs s (name func))) now
                   (invoke E c func (getInputs s (name func))) # functionResults s))
   \<and> functionResults (step E (Connect p w mk) s) =
       (if connectResets (typeError E) p w s then [] else functionResults s)
   \<and> (list_all (\<lambda>e. \<not> isConnect e) evs \<longrightarrow>
        suffix (functionResults s) (functionResults (fold (step E) evs s)))"
  using start_log [of E now func s] steps_suffix [of evs s E]
    executeFunction_log [of E now func s] connectToContract_log [of "typeError E" p w mk s]
  by (simp add: other_log settle_fields del: step.simps(6))

theorem result_log_prepend_or_clear_witness:
  "list_all (\<lambda>e. \<not> isConnect e)
     [InputChange ''mint'' ''amount'' ''7'', Execute 9 mint, Execute 10 totalSupply]
   \<and> map (\<lambda>r. (functionName r, error r, timestamp r))
       (functionResults
          (fold (step exampleEnv)
             [InputChange ''mint'' ''amount'' ''7'', Execute 9 mint, Execute 10 totalSupply]
             loggedState))
       = [(''totalSupply'', None, 10), (''mint'', Some ''execution reverted'', 9),
          (''totalSupply'', None, 1)]
   \<and> suffix (functionResults loggedState)
        (functionResults
           (fold (step exampleEnv)
              [InputChange ''mint'' ''amount'' ''7'', Execute 9 mint, Execute 10 totalSupply]
              loggedState))
   \<and> connectResets (typeError exampleEnv) True (Inr (Signer ''0xabc'', ''0xabc'')) loggedState
   \<and> functionResults (step exampleEnv connectAnswer loggedState) = []
   \<and> \<not> connectResets (typeError exampleEnv) True (Inl ''User rejected the request.'') loggedState
   \<and> functionResults (step exampleEnv rejectedConnect loggedState) = [olderResult]
   \<and> \<not> connectResets (typeError exampleEnv) True (Inr (Signer ''0xabc'', ''0xabc''))
          (loggedState\<lparr>currentContractData := None\<rparr>)
   \<and> functionResults
        (step exampleEnv connectAnswer (loggedState\<lparr>currentContractData := None\<rparr>))
       = [olderResult]"
proof -
  have c: "currentContractData loggedState = Some (VString ''0x1'', VArray [])"
    "authMethod loggedState = browserWallet" "functionResults loggedState = [olderResult]"
    by (simp_all add: loggedState_def connectedState_def initialState_def)
  have r1: "connectResets (typeError exampleEnv) True (Inr (Signer ''0xabc'', ''0xabc'')) loggedState"
    and r2: "\<not> connectResets (typeError exampleEnv) True (Inl ''User rejected the request.'') loggedState"
    and r3: "\<not> connectResets (typeError exampleEnv) True (Inr (Signer ''0xabc'', ''0xabc''))
          (loggedState\<lparr>currentContractData := None\<rparr>)"
    by (simp_all add: connectResets_def c filterAbi_def)
  have 4: "list_all (\<lambda>e. \<not> isConnect e)
     [InputChange ''mint'' ''amount'' ''7'', Execute 9 mint, Execute 10 totalSupply]"
    by simp
  have 5: "map (\<lambda>r. (functionName r, error r, timestamp r))
       (functionResults
          (fold (step exampleEnv)
             [InputChange ''mint'' ''amount'' ''7'', Execute 9 mint, Execute 10 totalSupply]
             loggedState))
       = [(''totalSupply'', None, 10), (''mint'', Some ''execution reverted'', 9),
          (''totalSupply'', None, 1)]"
    by (simp add: executeFunction_def begin_invocation_def settle_def recordResult_def
        handleInputChange_def loggedState_def connectedState_def initialState_def
        mkResult_def invoke_def mint_def totalSupply_def exampleContract_def exampleEnv_def
        coerceInput_def coerceValue_def rawValue_def getInputs_def lookupInputs_def
        olderResult_def Let_def)
  have a: "functionResults (step exampleEnv connectAnswer loggedState) = []"
    using result_log_prepend_or_clear [where E = exampleEnv and s = loggedState and p = True
        and w = "Inr (Signer ''0xabc'', ''0xabc'')" and mk = "\<lambda>addr a sg. Inr exampleContract"] r1
    by (simp add: connectAnswer_def)
  have b: "functionResults (step exampleEnv rejectedConnect loggedState) = [olderResult]"
    using result_log_prepend_or_clear [where E = exampleEnv and s = loggedState and p = True
        and w = "Inl ''User rejected the request.''" and mk = "\<lambda>addr a sg. Inr exampleContract"]
      r2 c(3)
    by (simp add: rejectedConnect_def)
  have d: "functionResults
        (step exampleEnv connectAnswer (loggedState\<lparr>currentContractData := None\<rparr>))
       = [olderResult]"
    using result_log_prepend_or_clear [where E = exampleEnv
        and s = "loggedState\<lparr>currentContractData := None\<rparr>" and p = True
        and w = "Inr (Signer ''0xabc'', ''0xabc'')" and mk = "\<lambda>addr a sg. Inr exampleContract"]
      r3 c(3)
    by (simp add: connectAnswer_def)
  have e: "suffix (functionResults loggedState)
        (functionResults
           (fold (step exampleEnv)
              [InputChange ''mint'' ''amount'' ''7'', Execute 9 mint, Execute 10 totalSupply]
              loggedState))"
    using result_log_prepend_or_clear [where E = exampleEnv and s = loggedState
        and evs = "[InputChange ''mint'' ''amount'' ''7'', Execute 9 mint, Execute 10 totalSupply]"] 4
    by blast
  show ?thesis
    using 4 5 e r1 a r2 b r3 d by blast
qed

section \<open>The catalog loader\<close>











end
